theory Spec2Isabelle
  imports Main
begin

section \<open>Python values and exceptions\<close>

text \<open>
  The module \<^verbatim>\<open>plugins/modules/infinidash.py\<close> handles option values, JSON documents
  and SDK responses, all of them plain Python values. They are modelled by one datatype;
  a dict keeps its items as an association list.
\<close>

datatype pyval =
    PNone
  | PBool bool
  | PInt int
  | PStr string
  | PList "pyval list"
  | PDict "(string \<times> pyval) list"

text \<open>Python's truth test, as applied by \<^verbatim>\<open>if x:\<close>.\<close>

fun truthy :: "pyval \<Rightarrow> bool" where
  "truthy PNone = False"
| "truthy (PBool b) = b"
| "truthy (PInt i) = (i \<noteq> 0)"
| "truthy (PStr s) = (s \<noteq> [])"
| "truthy (PList xs) = (xs \<noteq> [])"
| "truthy (PDict kvs) = (kvs \<noteq> [])"

text \<open>
  The exceptions that can occur in the module. Of these only the SDK's
  \<^verbatim>\<open>ClientError\<close> has an attribute \<^verbatim>\<open>response\<close>.
\<close>

datatype exc =
    BotoCoreError string
  | ClientError string pyval
  | ValueError string
  | TypeError string
  | UnboundLocalError string
  | AttributeError string
  | OSError string

text \<open>The test of \<^verbatim>\<open>except (BotoCoreError, ClientError) as e\<close>.\<close>

fun is_sdk_error :: "exc \<Rightarrow> bool" where
  "is_sdk_error (BotoCoreError m) = True"
| "is_sdk_error (ClientError m r) = True"
| "is_sdk_error e = False"

text \<open>The test of \<^verbatim>\<open>except ValueError as e\<close>.\<close>

fun is_ValueError :: "exc \<Rightarrow> bool" where
  "is_ValueError (ValueError m) = True"
| "is_ValueError e = False"

text \<open>The attribute read \<^verbatim>\<open>e.response\<close>: \<open>None\<close> when the exception has no such attribute.\<close>

fun response :: "exc \<Rightarrow> pyval option" where
  "response (ClientError m r) = Some r"
| "response e = None"

section \<open>Module parameters\<close>

text \<open>
  \<^verbatim>\<open>module.params\<close> is a dict from option names to values;
  \<^verbatim>\<open>module.params.get(k)\<close> is \<^verbatim>\<open>None\<close> for a key that is not there.
\<close>

type_synonym params = "(string \<times> pyval) list"

definition params_get :: "params \<Rightarrow> string \<Rightarrow> pyval" where
  "params_get ps k = (case map_of ps k of None \<Rightarrow> PNone | Some v \<Rightarrow> v)"

section \<open>The SDK client and what the module reports\<close>

text \<open>
  The client returned by \<^verbatim>\<open>module.client('dash', ...)\<close> is outside the repository: its
  three operations are parameters. Each either raises (\<open>Inl\<close>) or returns a response
  (\<open>Inr\<close>); retries are the wrapped client's own (\<^verbatim>\<open>aws_retry=True\<close>).
\<close>

record client =
  describe_dashes :: "pyval list \<Rightarrow> exc + pyval"
  sdk_create_dash :: "pyval \<Rightarrow> pyval \<Rightarrow> exc + pyval"
  delete_dash :: "pyval \<Rightarrow> exc + pyval"

text \<open>The remote calls of a run, in order, with the arguments passed.\<close>

datatype call =
    DescribeDashes "pyval list"
  | CreateDash pyval pyval
  | DeleteDash pyval

text \<open>A message built by \<^verbatim>\<open>"...".format(x)\<close>: the format string and its arguments.\<close>

datatype message = Message string "pyval list"

text \<open>The reasons for which the construction of the module object rejects an invocation.\<close>

datatype argerr =
    UnsupportedParameters "string list"
  | MutuallyExclusive "string list"
  | MissingRequired "string list"
  | InvalidChoice string

text \<open>
  How a run ends. The reporting methods \<^verbatim>\<open>exit_json\<close>, \<^verbatim>\<open>fail_json\<close> and
  \<^verbatim>\<open>fail_json_aws\<close> belong to the framework class \<^verbatim>\<open>AnsibleAWSModule\<close>, which is
  not part of the repository. Each of them ends the run when it accepts its call:
  \<^item> \<open>ExitJson kwargs\<close> is the result reported by \<^verbatim>\<open>module.exit_json(**kwargs)\<close>;
  \<^item> \<open>FailJsonAws e msg\<close> is \<^verbatim>\<open>module.fail_json_aws(e, msg=msg)\<close>;
  \<^item> \<open>FailJson e r\<close> is \<^verbatim>\<open>module.fail_json(msg=str(e), exception=..., **camel_dict_to_snake_dict(r))\<close>;
  \<^item> \<open>InvalidArguments err\<close> is the failure reported by the constructor;
  \<^item> \<open>Uncaught e\<close> is an exception that no handler of the module catches.

  How the framework renders a report is outside the model.
\<close>

datatype outcome =
    ExitJson "(string \<times> pyval) list"
  | FailJsonAws exc message
  | FailJson exc pyval
  | InvalidArguments argerr
  | Uncaught exc

text \<open>
  The handler \<^verbatim>\<open>except (BotoCoreError, ClientError) as e: module.fail_json_aws(e, msg=...)\<close>
  around a remote call; any other exception leaves the module.
\<close>

definition on_sdk_error :: "exc \<Rightarrow> message \<Rightarrow> outcome" where
  "on_sdk_error e msg = (if is_sdk_error e then FailJsonAws e msg else Uncaught e)"

text \<open>
  A call \<^verbatim>\<open>module.exit_json(*args, **kwargs)\<close>. The framework declares the method as
  \<^verbatim>\<open>exit_json(self, **kwargs)\<close>: it takes keyword arguments only, so a call with a
  positional argument raises \<^verbatim>\<open>TypeError\<close> before anything is reported, and the
  module has no handler for it.
\<close>

definition exit_json :: "pyval list \<Rightarrow> (string \<times> pyval) list \<Rightarrow> outcome" where
  "exit_json args kwargs =
     (if args = [] then ExitJson kwargs
      else Uncaught (TypeError ''exit_json() takes 1 positional argument''))"

section \<open>create_dash and remove_dash\<close>

text \<open>
  \<^verbatim>\<open>create_dash(client, module, config)\<close>, lines 120 to 139. The local variable
  \<^verbatim>\<open>dash\<close> is assigned only inside the branch on \<^verbatim>\<open>dash_id\<close>, so it is an
  optional value: \<open>None\<close> while unbound, and reading it then raises
  \<^verbatim>\<open>UnboundLocalError\<close>.
\<close>

definition create_dash :: "client \<Rightarrow> params \<Rightarrow> pyval \<Rightarrow> outcome \<times> call list" where
  "create_dash client params config =
     (let changed = False;
          dash_id = params_get params ''dash_id'';
          described =
            (if truthy dash_id then
               (case describe_dashes client [dash_id] of
                  Inl e \<Rightarrow>
                    (Inl (on_sdk_error e (Message ''Failed to describe dash ID {}'' [dash_id])),
                     [DescribeDashes [dash_id]])
                | Inr d \<Rightarrow> (Inr (Some d), [DescribeDashes [dash_id]]))
             else (Inr None, []))
      in case described of
           (Inl out, calls) \<Rightarrow> (out, calls)
         | (Inr None, calls) \<Rightarrow> (Uncaught (UnboundLocalError ''dash''), calls)
         | (Inr (Some dash), calls) \<Rightarrow>
             if truthy dash then (exit_json [PBool changed, dash] [], calls)
             else
               (let changed = True;
                    name = params_get params ''name''
                in case sdk_create_dash client name config of
                     Inl e \<Rightarrow>
                       (on_sdk_error e (Message ''Dash creation failed!'' []),
                        calls @ [CreateDash name config])
                   | Inr dash \<Rightarrow>
                       (exit_json [PBool changed, dash] [], calls @ [CreateDash name config])))"

text \<open>
  \<^verbatim>\<open>remove_dash(client, module)\<close>, lines 141 to 147. Line 146 of the file lacks the
  parenthesis that closes the call of \<^verbatim>\<open>fail_json_aws\<close>; the function is read with
  that parenthesis in place, the handler being the same as the two of \<^verbatim>\<open>create_dash\<close>.
\<close>

definition remove_dash :: "client \<Rightarrow> params \<Rightarrow> outcome \<times> call list" where
  "remove_dash client params =
     (let changed = True;
          dash_id = params_get params ''dash_id''
      in case delete_dash client dash_id of
           Inl e \<Rightarrow>
             (on_sdk_error e (Message ''Failed to delete dash ID {}'' [dash_id]),
              [DeleteDash dash_id])
         | Inr r \<Rightarrow> (exit_json [PBool changed] [(''dash'', PNone)], [DeleteDash dash_id]))"

section \<open>The argument specification and its checks\<close>

text \<open>
  One entry of \<^verbatim>\<open>argument_spec\<close>. An entry without \<^verbatim>\<open>type\<close> has the framework's
  default \<^verbatim>\<open>'str'\<close>; \<open>PNone\<close> stands for no default and \<open>[]\<close> for no list of choices.
\<close>

record option_spec =
  opt_required :: bool
  opt_type :: string
  opt_default :: pyval
  opt_choices :: "pyval list"

definition opt :: option_spec where
  "opt = \<lparr>opt_required = False, opt_type = ''str'', opt_default = PNone, opt_choices = []\<rparr>"

text \<open>The dict built at lines 151 to 159 of \<^verbatim>\<open>main\<close>.\<close>

definition argument_spec :: "(string \<times> option_spec) list" where
  "argument_spec =
     [(''name'', opt\<lparr>opt_required := True\<rparr>),
      (''dash_config'', opt\<lparr>opt_type := ''json''\<rparr>),
      (''config_file'', opt\<lparr>opt_type := ''path''\<rparr>),
      (''state'', opt\<lparr>opt_default := PStr ''present'',
                        opt_choices := [PStr ''present'', PStr ''absent'']\<rparr>),
      (''tags'', opt\<lparr>opt_type := ''dict''\<rparr>),
      (''wait'', opt\<lparr>opt_type := ''bool'', opt_default := PBool False\<rparr>),
      (''wait_timeout'', opt\<lparr>opt_type := ''int'', opt_default := PInt 320,
                               opt_required := False\<rparr>)]"

text \<open>The argument \<^verbatim>\<open>mutually_exclusive\<close> of the constructor call, line 163.\<close>

definition mutually_exclusive :: "string list list" where
  "mutually_exclusive = [[''policy'', ''policy_file'']]"

text \<open>
  The constructor \<^verbatim>\<open>AnsibleAWSModule(argument_spec=..., mutually_exclusive=...)\<close> belongs
  to the framework. Its checks are modelled as the framework documents the two arguments
  that the module passes:
  \<^item> an option that is not a key of \<^verbatim>\<open>argument_spec\<close> is unsupported;
  \<^item> of the options of one group of \<^verbatim>\<open>mutually_exclusive\<close> at most one may be given;
  \<^item> an option with \<^verbatim>\<open>required=True\<close> must be given;
  \<^item> an option that is not given takes its default, \<^verbatim>\<open>None\<close> without one;
  \<^item> a value other than \<^verbatim>\<open>None\<close> of an option with \<^verbatim>\<open>choices\<close> must be one of them.

  An invocation is the dict of the options given, as an association list. The conversion
  of values to the declared \<^verbatim>\<open>type\<close> is not modelled: an invocation holds the values
  as they are after it. The connection options that the framework adds to every AWS
  module (region, credentials) are left out.
\<close>

definition unsupported_parameters :: "(string \<times> option_spec) list \<Rightarrow> params \<Rightarrow> string list" where
  "unsupported_parameters spec args = filter (\<lambda>k. k \<notin> set (map fst spec)) (map fst args)"

definition count_terms :: "string list \<Rightarrow> params \<Rightarrow> nat" where
  "count_terms terms args = length (filter (\<lambda>k. k \<in> set (map fst args)) (remdups terms))"

definition check_mutually_exclusive :: "string list list \<Rightarrow> params \<Rightarrow> string list list" where
  "check_mutually_exclusive groups args = filter (\<lambda>g. 1 < count_terms g args) groups"

definition check_required_arguments :: "(string \<times> option_spec) list \<Rightarrow> params \<Rightarrow> string list" where
  "check_required_arguments spec args =
     map fst (filter (\<lambda>(k, s). opt_required s \<and> k \<notin> set (map fst args)) spec)"

definition set_defaults :: "(string \<times> option_spec) list \<Rightarrow> params \<Rightarrow> params" where
  "set_defaults spec args =
     map (\<lambda>(k, s). (k, case map_of args k of None \<Rightarrow> opt_default s | Some v \<Rightarrow> v)) spec"

definition check_choices :: "(string \<times> option_spec) list \<Rightarrow> params \<Rightarrow> string list" where
  "check_choices spec ps =
     map fst (filter (\<lambda>(k, s). opt_choices s \<noteq> [] \<and> params_get ps k \<noteq> PNone
                                \<and> params_get ps k \<notin> set (opt_choices s)) spec)"

definition AnsibleAWSModule ::
    "(string \<times> option_spec) list \<Rightarrow> string list list \<Rightarrow> params \<Rightarrow> argerr + params" where
  "AnsibleAWSModule spec groups args =
     (case unsupported_parameters spec args of
        k # ks \<Rightarrow> Inl (UnsupportedParameters (k # ks))
      | [] \<Rightarrow>
         (case check_mutually_exclusive groups args of
            g # gs \<Rightarrow> Inl (MutuallyExclusive g)
          | [] \<Rightarrow>
             (case check_required_arguments spec args of
                k # ks \<Rightarrow> Inl (MissingRequired (k # ks))
              | [] \<Rightarrow>
                 (let ps = set_defaults spec args
                  in case check_choices spec ps of
                       k # ks \<Rightarrow> Inl (InvalidChoice k)
                     | [] \<Rightarrow> Inr ps))))"

section \<open>main\<close>

text \<open>
  What \<^verbatim>\<open>main\<close> reads from outside the module besides the client: the JSON decoder
  on a string (\<open>None\<close> when the text is not JSON) and the reading of a JSON file, that is
  \<^verbatim>\<open>open(path, 'r')\<close> followed by \<^verbatim>\<open>json.load\<close>.
\<close>

record env =
  json_decode :: "string \<Rightarrow> pyval option"
  open_json :: "pyval \<Rightarrow> exc + pyval"

text \<open>
  \<^verbatim>\<open>json.loads(x)\<close>: a value that is not a string is refused with \<^verbatim>\<open>TypeError\<close>,
  a string that is not JSON with \<^verbatim>\<open>JSONDecodeError\<close>, a subclass of
  \<^verbatim>\<open>ValueError\<close>.
\<close>

definition json_loads :: "env \<Rightarrow> pyval \<Rightarrow> exc + pyval" where
  "json_loads env x =
     (case x of
        PStr s \<Rightarrow>
          (case json_decode env s of
             None \<Rightarrow> Inl (ValueError ''Expecting value'')
           | Some v \<Rightarrow> Inr v)
      | _ \<Rightarrow> Inl (TypeError ''the JSON object must be str, bytes or bytearray''))"

text \<open>
  The body of the two handlers of \<^verbatim>\<open>main\<close>, lines 176 to 177 and 184 to 185. The
  arguments of \<^verbatim>\<open>fail_json\<close> are evaluated before the call, \<^verbatim>\<open>e.response\<close> among them.
\<close>

definition on_config_error :: "exc \<Rightarrow> outcome" where
  "on_config_error e =
     (case response e of
        None \<Rightarrow> Uncaught (AttributeError ''response'')
      | Some r \<Rightarrow> FailJson e r)"

text \<open>\<^verbatim>\<open>main()\<close>, lines 150 to 188, on an invocation \<open>args\<close>.\<close>

definition main :: "env \<Rightarrow> client \<Rightarrow> params \<Rightarrow> outcome \<times> call list" where
  "main env client args =
     (case AnsibleAWSModule argument_spec mutually_exclusive args of
        Inl err \<Rightarrow> (InvalidArguments err, [])
      | Inr params \<Rightarrow>
          (let state = params_get params ''state''
           in if state = PStr ''present'' then
                (if truthy (params_get params ''dash_config'') then
                   (case json_loads env (params_get params ''policy'') of
                      Inl e \<Rightarrow> (if is_ValueError e then on_config_error e else Uncaught e, [])
                    | Inr config \<Rightarrow> create_dash client params config)
                 else if truthy (params_get params ''config_file'') then
                   (case open_json env (params_get params ''config_file'') of
                      Inl e \<Rightarrow> (on_config_error e, [])
                    | Inr config \<Rightarrow> create_dash client params config)
                 else create_dash client params PNone)
              else remove_dash client params))"

section \<open>Sample clients and environment\<close>

text \<open>Concrete clients and a concrete environment, on which the model is run below.\<close>

definition sample_dash :: pyval where
  "sample_dash = PDict [(''DashId'', PStr ''d-1'')]"

text \<open>A client all of whose operations succeed and whose describe call finds the dash.\<close>

definition live_client :: client where
  "live_client =
     \<lparr>describe_dashes = (\<lambda>ids. Inr sample_dash),
      sdk_create_dash = (\<lambda>name config. Inr sample_dash),
      delete_dash = (\<lambda>dash_id. Inr (PDict []))\<rparr>"

text \<open>The same client before the dash exists: describe returns an empty response.\<close>

definition fresh_client :: client where
  "fresh_client = live_client\<lparr>describe_dashes := (\<lambda>ids. Inr (PDict []))\<rparr>"

text \<open>A client all of whose operations raise \<open>e\<close>.\<close>

definition failing_client :: "exc \<Rightarrow> client" where
  "failing_client e =
     \<lparr>describe_dashes = (\<lambda>ids. Inl e),
      sdk_create_dash = (\<lambda>name config. Inl e),
      delete_dash = (\<lambda>dash_id. Inl e)\<rparr>"

text \<open>An environment in which every text decodes and every file reads as \<^verbatim>\<open>{}\<close>.\<close>

definition plain_env :: env where
  "plain_env = \<lparr>json_decode = (\<lambda>s. Some (PDict [])), open_json = (\<lambda>path. Inr (PDict []))\<rparr>"

section \<open>Facts about the argument checks\<close>

lemmas run_defs = AnsibleAWSModule_def argument_spec_def mutually_exclusive_def
  unsupported_parameters_def check_mutually_exclusive_def count_terms_def
  check_required_arguments_def set_defaults_def check_choices_def params_get_def opt_def
  main_def create_dash_def remove_dash_def json_loads_def on_config_error_def
  on_sdk_error_def exit_json_def Let_def

lemma params_get_absent: "k \<notin> set (map fst ps) \<Longrightarrow> params_get ps k = PNone"
  by (simp add: params_get_def map_of_eq_None_iff[THEN iffD2])

text \<open>The parameters of an accepted invocation have exactly the keys of the specification.\<close>

lemma validated_keys:
  "AnsibleAWSModule spec groups args = Inr ps \<Longrightarrow> map fst ps = map fst spec"
  by (auto simp: AnsibleAWSModule_def set_defaults_def Let_def split: list.splits)

lemma argument_spec_keys:
  "map fst argument_spec =
     [''name'', ''dash_config'', ''config_file'', ''state'', ''tags'', ''wait'', ''wait_timeout'']"
  by (simp add: argument_spec_def)

text \<open>
  Hence \<^verbatim>\<open>module.params.get('dash_id')\<close> and \<^verbatim>\<open>module.params.get('policy')\<close> are
  \<^verbatim>\<open>None\<close> in every run of \<^verbatim>\<open>main\<close>: neither name is a key of
  \<^verbatim>\<open>argument_spec\<close>.
\<close>

lemma validated_dash_id:
  assumes "AnsibleAWSModule argument_spec mutually_exclusive args = Inr ps"
  shows "params_get ps ''dash_id'' = PNone"
  using validated_keys[OF assms] by (intro params_get_absent) (simp add: argument_spec_keys)

lemma validated_policy:
  assumes "AnsibleAWSModule argument_spec mutually_exclusive args = Inr ps"
  shows "params_get ps ''policy'' = PNone"
  using validated_keys[OF assms] by (intro params_get_absent) (simp add: argument_spec_keys)

lemma create_dash_unbound:
  "params_get ps ''dash_id'' = PNone \<Longrightarrow>
   create_dash client ps config = (Uncaught (UnboundLocalError ''dash''), [])"
  by (simp add: create_dash_def Let_def)

lemma remove_dash_calls:
  "snd (remove_dash client ps) = [DeleteDash (params_get ps ''dash_id'')]"
  by (simp add: remove_dash_def Let_def split: sum.split)

lemma on_config_error_not_exit: "on_config_error e \<noteq> ExitJson k"
  by (simp add: on_config_error_def split: option.split)

lemma on_sdk_error_not_exit: "on_sdk_error e msg \<noteq> ExitJson k"
  by (simp add: on_sdk_error_def)

text \<open>Every call of \<^verbatim>\<open>exit_json\<close> in the module has a positional argument.\<close>

lemma exit_json_positional:
  "exit_json (a # args) kwargs = Uncaught (TypeError ''exit_json() takes 1 positional argument'')"
  by (simp add: exit_json_def)

lemma create_dash_not_exit: "fst (create_dash client ps config) \<noteq> ExitJson k"
  by (simp add: create_dash_def Let_def exit_json_positional on_sdk_error_not_exit
      split: sum.split)

lemma remove_dash_not_exit: "fst (remove_dash client ps) \<noteq> ExitJson k"
  by (simp add: remove_dash_def Let_def exit_json_positional on_sdk_error_not_exit
      split: sum.split)

text \<open>Two invocations and the parameters that the constructor makes of them.\<close>

lemma name_only_validated:
  "AnsibleAWSModule argument_spec mutually_exclusive [(''name'', PStr ''n'')] =
     Inr [(''name'', PStr ''n''), (''dash_config'', PNone), (''config_file'', PNone),
          (''state'', PStr ''present''), (''tags'', PNone), (''wait'', PBool False),
          (''wait_timeout'', PInt 320)]"
  by (simp add: run_defs)

lemma name_and_config_validated:
  "AnsibleAWSModule argument_spec mutually_exclusive
       [(''name'', PStr ''n''), (''dash_config'', PStr ''{}'')] =
     Inr [(''name'', PStr ''n''), (''dash_config'', PStr ''{}''), (''config_file'', PNone),
          (''state'', PStr ''present''), (''tags'', PNone), (''wait'', PBool False),
          (''wait_timeout'', PInt 320)]"
  by (simp add: run_defs)

section \<open>The argument checks against the documented options\<close>

text \<open>
  C1. The documentation of \<^verbatim>\<open>dash_config\<close> and \<^verbatim>\<open>config_file\<close> says that the two
  cannot be used together, but the group passed as \<^verbatim>\<open>mutually_exclusive\<close> names
  \<^verbatim>\<open>policy\<close> and \<^verbatim>\<open>policy_file\<close>. An invocation that gives both options is therefore
  not rejected by the constructor: with \<^verbatim>\<open>state=absent\<close> it goes on to the delete call,
  and with \<^verbatim>\<open>state=present\<close> it ends in the \<^verbatim>\<open>TypeError\<close> of
  \<^verbatim>\<open>json.loads(None)\<close>, which is not a report of invalid parameters.
\<close>

theorem both_config_sources_not_rejected:
  "snd (main env client
          [(''name'', PStr ''n''), (''dash_config'', PStr ''{}''),
           (''config_file'', PStr ''/c.json''), (''state'', PStr ''absent'')])
     = [DeleteDash PNone]
   \<and> main env client
         [(''name'', PStr ''n''), (''dash_config'', PStr ''{}''),
          (''config_file'', PStr ''/c.json''), (''state'', PStr ''present'')]
     = (Uncaught (TypeError ''the JSON object must be str, bytes or bytearray''), [])"
  by (simp add: run_defs split: sum.split)

text \<open>
  C2. The documentation says that \<^verbatim>\<open>dash_id\<close> is required when deleting, but nothing in
  \<^verbatim>\<open>main\<close> requires it: an invocation with \<^verbatim>\<open>state=absent\<close> and no id passes the
  constructor and calls \<^verbatim>\<open>delete_dash\<close> with \<^verbatim>\<open>DashId=None\<close>; when that call
  succeeds the run goes on to the call of \<^verbatim>\<open>exit_json\<close> at line 147, which raises
  \<^verbatim>\<open>TypeError\<close> on its positional argument.
\<close>

theorem absent_without_id_calls_delete:
  "snd (main env client [(''name'', PStr ''n''), (''state'', PStr ''absent'')])
     = [DeleteDash PNone]
   \<and> main env live_client [(''name'', PStr ''n''), (''state'', PStr ''absent'')]
     = (Uncaught (TypeError ''exit_json() takes 1 positional argument''), [DeleteDash PNone])"
  by (simp add: run_defs live_client_def split: sum.split)

text \<open>
  C4. The keys of \<^verbatim>\<open>argument_spec\<close> are the seven options other than
  \<^verbatim>\<open>dash_id\<close>. An invocation that gives \<^verbatim>\<open>dash_id\<close> is rejected by the constructor
  as carrying an unsupported parameter, although the documentation lists the option and
  both \<^verbatim>\<open>create_dash\<close> and \<^verbatim>\<open>remove_dash\<close> read it.
\<close>

theorem dash_id_is_unsupported:
  "map fst argument_spec =
     [''name'', ''dash_config'', ''config_file'', ''state'', ''tags'', ''wait'', ''wait_timeout'']
   \<and> main env client [(''name'', PStr ''n''), (''dash_id'', PStr ''d-1'')]
       = (InvalidArguments (UnsupportedParameters [''dash_id'']), [])"
  by (simp add: run_defs)

section \<open>Ensuring that the dash is present\<close>

text \<open>
  C3. The contract asks that \<^verbatim>\<open>state=present\<close> creates the dash when it is missing.
  The plainest such invocation, a name alone (the state defaults to \<^verbatim>\<open>present\<close>) or
  a name with \<^verbatim>\<open>state=present\<close>, makes no remote call with any client and ends in the
  \<^verbatim>\<open>UnboundLocalError\<close> raised by \<^verbatim>\<open>if dash:\<close> at line 128.
\<close>

theorem present_does_not_create:
  "main env client [(''name'', PStr ''n'')] = (Uncaught (UnboundLocalError ''dash''), [])
   \<and> main env client [(''name'', PStr ''n''), (''state'', PStr ''present'')]
       = (Uncaught (UnboundLocalError ''dash''), [])"
  by (simp add: run_defs)

text \<open>
  C5. With a client on which the dash does not exist yet and the create call would
  succeed, and with a configuration file that reads well, an invocation with
  \<^verbatim>\<open>state=present\<close> never reaches the create call: it ends in the
  \<^verbatim>\<open>UnboundLocalError\<close> of line 128, not in \<^verbatim>\<open>exit_json\<close> with the change flag
  \<open>True\<close>.
\<close>

theorem create_is_not_reached:
  "main (env\<lparr>open_json := (\<lambda>path. Inr config)\<rparr>) fresh_client
      [(''name'', PStr ''n''), (''config_file'', PStr ''/c.json''), (''state'', PStr ''present'')]
     = (Uncaught (UnboundLocalError ''dash''), [])"
  by (simp add: run_defs)

text \<open>
  C6. The case in which the dash exists already does not end as a run without change.
  When \<^verbatim>\<open>dash_id\<close> is set and the describe call returns a response that is true in
  Python's sense, \<^verbatim>\<open>create_dash\<close> makes no create call, but its call
  \<^verbatim>\<open>module.exit_json(changed, dash)\<close> at line 130 passes both values by position and
  raises \<^verbatim>\<open>TypeError\<close>: nothing is reported. Through \<^verbatim>\<open>main\<close> the case cannot
  even be entered, since an invocation that gives \<^verbatim>\<open>dash_id\<close> is rejected as carrying
  an unsupported parameter.
\<close>

theorem existing_dash_is_not_reported:
  assumes "truthy (params_get params ''dash_id'')"
    and "describe_dashes client [params_get params ''dash_id''] = Inr dash"
    and "truthy dash"
  shows "create_dash client params config =
           (Uncaught (TypeError ''exit_json() takes 1 positional argument''),
            [DescribeDashes [params_get params ''dash_id'']])
       \<and> main env client
             [(''name'', PStr ''n''), (''dash_id'', PStr ''d-1''), (''state'', PStr ''present'')]
           = (InvalidArguments (UnsupportedParameters [''dash_id'']), [])"
  using assms by (simp add: run_defs)

theorem existing_dash_is_not_reported_witness:
  "truthy (params_get [(''name'', PStr ''n''), (''dash_id'', PStr ''d-1'')] ''dash_id'')
   \<and> describe_dashes live_client
        [params_get [(''name'', PStr ''n''), (''dash_id'', PStr ''d-1'')] ''dash_id'']
       = Inr sample_dash
   \<and> truthy sample_dash
   \<and> create_dash live_client [(''name'', PStr ''n''), (''dash_id'', PStr ''d-1'')] PNone
       = (Uncaught (TypeError ''exit_json() takes 1 positional argument''),
          [DescribeDashes [PStr ''d-1'']])
   \<and> main plain_env live_client
         [(''name'', PStr ''n''), (''dash_id'', PStr ''d-1''), (''state'', PStr ''present'')]
       = (InvalidArguments (UnsupportedParameters [''dash_id'']), [])"
  using existing_dash_is_not_reported
    [of "[(''name'', PStr ''n''), (''dash_id'', PStr ''d-1'')]" live_client sample_dash
        PNone plain_env]
  by (simp add: live_client_def sample_dash_def params_get_def)

text \<open>
  C8. When \<^verbatim>\<open>dash_id\<close> is missing or empty, \<^verbatim>\<open>create_dash\<close> makes no describe call
  (no remote call at all) and ends in the \<^verbatim>\<open>UnboundLocalError\<close> raised by reading
  \<^verbatim>\<open>dash\<close>, whatever the client and the configuration are.
\<close>

theorem create_dash_reads_unbound_dash:
  assumes "\<not> truthy (params_get params ''dash_id'')"
  shows "create_dash client params config = (Uncaught (UnboundLocalError ''dash''), [])"
  using assms by (simp add: create_dash_def Let_def)

theorem create_dash_reads_unbound_dash_witness:
  "\<not> truthy (params_get [(''name'', PStr ''n'')] ''dash_id'')
   \<and> create_dash live_client [(''name'', PStr ''n'')] PNone
       = (Uncaught (UnboundLocalError ''dash''), [])"
  using create_dash_reads_unbound_dash [of "[(''name'', PStr ''n'')]" live_client PNone]
  by (simp add: params_get_def)

text \<open>
  C9. For an accepted invocation with \<^verbatim>\<open>state=present\<close> and a non-empty
  \<^verbatim>\<open>dash_config\<close>: the parameter \<^verbatim>\<open>policy\<close> that \<^verbatim>\<open>main\<close> hands to the JSON
  parser is \<^verbatim>\<open>None\<close>; the run ends in the parser's \<^verbatim>\<open>TypeError\<close> without any remote
  call, so the create call is not reached; and the handler of a \<^verbatim>\<open>ValueError\<close> would
  itself end in an \<^verbatim>\<open>AttributeError\<close>, on \<^verbatim>\<open>e.response\<close>.
\<close>

theorem dash_config_is_never_parsed:
  assumes "AnsibleAWSModule argument_spec mutually_exclusive args = Inr params"
    and "params_get params ''state'' = PStr ''present''"
    and "truthy (params_get params ''dash_config'')"
  shows "params_get params ''policy'' = PNone
       \<and> main env client args =
           (Uncaught (TypeError ''the JSON object must be str, bytes or bytearray''), [])
       \<and> on_config_error (ValueError m) = Uncaught (AttributeError ''response'')"
  using assms validated_policy[OF assms(1)]
  by (simp add: main_def json_loads_def on_config_error_def Let_def)

theorem dash_config_is_never_parsed_witness:
  "AnsibleAWSModule argument_spec mutually_exclusive
       [(''name'', PStr ''n''), (''dash_config'', PStr ''{}'')] =
     Inr [(''name'', PStr ''n''), (''dash_config'', PStr ''{}''), (''config_file'', PNone),
          (''state'', PStr ''present''), (''tags'', PNone), (''wait'', PBool False),
          (''wait_timeout'', PInt 320)]
   \<and> params_get [(''name'', PStr ''n''), (''dash_config'', PStr ''{}''), (''config_file'', PNone),
          (''state'', PStr ''present''), (''tags'', PNone), (''wait'', PBool False),
          (''wait_timeout'', PInt 320)] ''state'' = PStr ''present''
   \<and> truthy (params_get [(''name'', PStr ''n''), (''dash_config'', PStr ''{}''),
          (''config_file'', PNone), (''state'', PStr ''present''), (''tags'', PNone),
          (''wait'', PBool False), (''wait_timeout'', PInt 320)] ''dash_config'')
   \<and> main plain_env live_client [(''name'', PStr ''n''), (''dash_config'', PStr ''{}'')]
       = (Uncaught (TypeError ''the JSON object must be str, bytes or bytearray''), [])"
  using dash_config_is_never_parsed [OF name_and_config_validated, of plain_env live_client]
    name_and_config_validated
  by (simp add: params_get_def)

section \<open>Remote failures\<close>

text \<open>
  C7. An SDK error (\<^verbatim>\<open>BotoCoreError\<close> or \<^verbatim>\<open>ClientError\<close>) raised by the describe
  call, by the create call or by the delete call is caught where the call is made: the
  run ends in \<^verbatim>\<open>fail_json_aws\<close>, which receives the exception itself together with
  the message of that call site, and the failed call is the last remote call of the run
  (it is not repeated and nothing follows it).
\<close>

theorem sdk_error_is_reported:
  assumes "is_sdk_error e"
  shows "(truthy (params_get params ''dash_id'')
            \<and> describe_dashes client [params_get params ''dash_id''] = Inl e
          \<longrightarrow> create_dash client params config =
                (FailJsonAws e
                   (Message ''Failed to describe dash ID {}'' [params_get params ''dash_id'']),
                 [DescribeDashes [params_get params ''dash_id'']]))
       \<and> (truthy (params_get params ''dash_id'')
            \<and> describe_dashes client [params_get params ''dash_id''] = Inr d \<and> \<not> truthy d
            \<and> sdk_create_dash client (params_get params ''name'') config = Inl e
          \<longrightarrow> create_dash client params config =
                (FailJsonAws e (Message ''Dash creation failed!'' []),
                 [DescribeDashes [params_get params ''dash_id''],
                  CreateDash (params_get params ''name'') config]))
       \<and> (delete_dash client (params_get params ''dash_id'') = Inl e
          \<longrightarrow> remove_dash client params =
                (FailJsonAws e
                   (Message ''Failed to delete dash ID {}'' [params_get params ''dash_id'']),
                 [DeleteDash (params_get params ''dash_id'')]))"
  using assms by (simp add: create_dash_def remove_dash_def on_sdk_error_def Let_def)

theorem sdk_error_is_reported_witness:
  "is_sdk_error (ClientError ''AccessDenied'' (PDict []))
   \<and> create_dash (failing_client (ClientError ''AccessDenied'' (PDict [])))
        [(''name'', PStr ''n''), (''dash_id'', PStr ''d-1'')] PNone
       = (FailJsonAws (ClientError ''AccessDenied'' (PDict []))
            (Message ''Failed to describe dash ID {}'' [PStr ''d-1'']),
          [DescribeDashes [PStr ''d-1'']])
   \<and> create_dash ((failing_client (ClientError ''AccessDenied'' (PDict [])))
                    \<lparr>describe_dashes := (\<lambda>ids. Inr (PDict []))\<rparr>)
        [(''name'', PStr ''n''), (''dash_id'', PStr ''d-1'')] PNone
       = (FailJsonAws (ClientError ''AccessDenied'' (PDict []))
            (Message ''Dash creation failed!'' []),
          [DescribeDashes [PStr ''d-1''], CreateDash (PStr ''n'') PNone])
   \<and> remove_dash (failing_client (ClientError ''AccessDenied'' (PDict [])))
        [(''name'', PStr ''n''), (''dash_id'', PStr ''d-1'')]
       = (FailJsonAws (ClientError ''AccessDenied'' (PDict []))
            (Message ''Failed to delete dash ID {}'' [PStr ''d-1'']),
          [DeleteDash (PStr ''d-1'')])"
  using sdk_error_is_reported
          [of "ClientError ''AccessDenied'' (PDict [])"
              "[(''name'', PStr ''n''), (''dash_id'', PStr ''d-1'')]"
              "failing_client (ClientError ''AccessDenied'' (PDict []))" PNone "PDict []"]
        sdk_error_is_reported
          [of "ClientError ''AccessDenied'' (PDict [])"
              "[(''name'', PStr ''n''), (''dash_id'', PStr ''d-1'')]"
              "(failing_client (ClientError ''AccessDenied'' (PDict [])))
                 \<lparr>describe_dashes := (\<lambda>ids. Inr (PDict []))\<rparr>" PNone "PDict []"]
  by (simp add: failing_client_def params_get_def)

section \<open>Ensuring that the dash is absent\<close>

text \<open>
  C10. \<^verbatim>\<open>remove_dash\<close> makes the delete call without a describe call before it, and
  sets the change flag to \<open>True\<close> whatever the client is. When the delete call succeeds,
  however, nothing is reported: the call \<^verbatim>\<open>module.exit_json(changed, dash=None)\<close> at
  line 147 passes the flag by position and raises \<^verbatim>\<open>TypeError\<close>, after the dash
  has been deleted.
\<close>

theorem remove_dash_report_is_lost:
  assumes "delete_dash client (params_get params ''dash_id'') = Inr r"
  shows "remove_dash client params =
           (Uncaught (TypeError ''exit_json() takes 1 positional argument''),
            [DeleteDash (params_get params ''dash_id'')])"
  using assms by (simp add: remove_dash_def exit_json_def)

theorem remove_dash_report_is_lost_witness:
  "delete_dash live_client (params_get [(''dash_id'', PStr ''d-1'')] ''dash_id'') = Inr (PDict [])
   \<and> remove_dash live_client [(''dash_id'', PStr ''d-1'')] =
       (Uncaught (TypeError ''exit_json() takes 1 positional argument''),
        [DeleteDash (PStr ''d-1'')])"
  using remove_dash_report_is_lost [of live_client "[(''dash_id'', PStr ''d-1'')]" "PDict []"]
  by (simp add: live_client_def params_get_def)

section \<open>What a run of main can do\<close>

text \<open>
  An accepted invocation with \<^verbatim>\<open>state=present\<close> makes no remote call, whatever the
  client, the files and the other options are.
\<close>

theorem present_makes_no_remote_call:
  assumes "AnsibleAWSModule argument_spec mutually_exclusive args = Inr params"
    and "params_get params ''state'' = PStr ''present''"
  shows "snd (main env client args) = []"
  using assms create_dash_unbound[OF validated_dash_id[OF assms(1)]]
  by (simp add: main_def Let_def split: sum.split)

theorem present_makes_no_remote_call_witness:
  "AnsibleAWSModule argument_spec mutually_exclusive [(''name'', PStr ''n'')] =
     Inr [(''name'', PStr ''n''), (''dash_config'', PNone), (''config_file'', PNone),
          (''state'', PStr ''present''), (''tags'', PNone), (''wait'', PBool False),
          (''wait_timeout'', PInt 320)]
   \<and> params_get [(''name'', PStr ''n''), (''dash_config'', PNone), (''config_file'', PNone),
          (''state'', PStr ''present''), (''tags'', PNone), (''wait'', PBool False),
          (''wait_timeout'', PInt 320)] ''state'' = PStr ''present''
   \<and> snd (main plain_env live_client [(''name'', PStr ''n'')]) = []"
  using present_makes_no_remote_call [OF name_only_validated, of plain_env live_client]
    name_only_validated
  by (simp add: params_get_def)

text \<open>
  The remote calls of any run of \<^verbatim>\<open>main\<close> are none at all or the one call
  \<^verbatim>\<open>delete_dash(DashId=None)\<close>: no run describes or creates a dash, and no run deletes
  a dash by its id.
\<close>

theorem main_remote_calls:
  "snd (main env client args) = [] \<or> snd (main env client args) = [DeleteDash PNone]"
proof (cases "AnsibleAWSModule argument_spec mutually_exclusive args")
  case (Inl err)
  then show ?thesis by (simp add: main_def)
next
  case (Inr ps)
  note no_id = validated_dash_id[OF Inr]
  show ?thesis
    using Inr create_dash_unbound[OF no_id] remove_dash_calls[of client ps] no_id
    by (simp add: main_def Let_def split: sum.split)
qed

text \<open>
  No run of \<^verbatim>\<open>main\<close> ends in a reported result: every call of \<^verbatim>\<open>exit_json\<close> in
  the module passes the change flag by position.
\<close>

theorem main_never_reports_a_result:
  "fst (main env client args) \<noteq> ExitJson kwargs"
proof (cases "AnsibleAWSModule argument_spec mutually_exclusive args")
  case (Inl err)
  then show ?thesis by (simp add: main_def)
next
  case (Inr ps)
  then show ?thesis
    by (simp add: main_def Let_def create_dash_not_exit remove_dash_not_exit
        on_config_error_not_exit split: sum.split)
qed

end
